theory Spec2Isabelle
  imports Main "HOL-Library.AList" "HOL-Library.Char_ord" "HOL-Library.List_Lexorder"
begin

section \<open>Data model (types.ts)\<close>

text \<open>
  JavaScript values that reach the serialisers. A \<^verbatim>\<open>number\<close> is modelled as an
  integer (every amount in the test suite is integral); a \<^verbatim>\<open>Date\<close> is its time value
  in milliseconds since the epoch; an object is an association list in insertion order.
\<close>

datatype json =
    JUndefined
  | JNull
  | JString string
  | JNumber int
  | JArray "json list"
  | JObject "(string \<times> json) list"

datatype ReceiptStatus = ISSUED | VOIDED | REFUNDED

fun status_str :: "ReceiptStatus \<Rightarrow> string" where
  "status_str ISSUED = ''issued''"
| "status_str VOIDED = ''voided''"
| "status_str REFUNDED = ''refunded''"

record ReceiptLineItem =
  description :: string
  quantity :: int
  unitPrice :: int
  totalPrice :: int
  item_metadata :: "(string \<times> json) list option"

record Receipt =
  receiptId :: string
  tenantId :: string
  transactionId :: string
  status :: ReceiptStatus
  issuedAt :: int
  issuedBy :: string
  lineItems :: "ReceiptLineItem list"
  subtotal :: int
  tax :: int
  total :: int
  currency :: string
  paymentMethod :: string
  auditEventId :: "string option"
  hash :: string
  verificationCode :: string
  metadata :: "(string \<times> json) list option"

section \<open>JavaScript built-ins used by the code\<close>

subsection \<open>Strings\<close>

text \<open>\<^verbatim>\<open>toUpperCase\<close> on the ASCII letters; hexadecimal digests and codes hold no others.\<close>

definition upper_char :: "char \<Rightarrow> char" where
  "upper_char c =
     (let n = (of_char c :: nat) in if 97 \<le> n \<and> n \<le> 122 then char_of (n - 32) else c)"

definition toUpperCase :: "string \<Rightarrow> string" where
  "toUpperCase s = map upper_char s"

definition substring :: "string \<Rightarrow> nat \<Rightarrow> nat \<Rightarrow> string" where
  "substring s a b = take (b - a) (drop a s)"

fun join :: "string \<Rightarrow> string list \<Rightarrow> string" where
  "join sep [] = []"
| "join sep [x] = x"
| "join sep (x # y # ys) = x @ sep @ join sep (y # ys)"

subsection \<open>Number to string\<close>

text \<open>The decimal digits of a non-negative integer, and \<^verbatim>\<open>'' + n\<close> for an integer.\<close>

definition digit_char :: "int \<Rightarrow> char" where
  "digit_char d = char_of (48 + d)"

function show_digits :: "int \<Rightarrow> string" where
  "show_digits n =
     (if n < 10 then [digit_char n] else show_digits (n div 10) @ [digit_char (n mod 10)])"
  by pat_completeness auto
termination
  by (relation "measure nat") auto

declare show_digits.simps [simp del]

definition show_int :: "int \<Rightarrow> string" where
  "show_int i = (if i < 0 then CHR ''-'' # show_digits (- i) else show_digits i)"

definition pad :: "nat \<Rightarrow> int \<Rightarrow> string" where
  "pad w n = (let s = show_digits n in replicate (w - length s) CHR ''0'' @ s)"

subsection \<open>Date.prototype.toISOString\<close>

text \<open>
  The proleptic Gregorian date of a time value, rendered as
  \<^verbatim>\<open>YYYY-MM-DDTHH:mm:ss.sssZ\<close> (six signed year digits outside 0..9999).
\<close>

definition civil_yoe :: "int \<Rightarrow> int" where
  "civil_yoe doe = (doe - doe div 1460 + doe div 36524 - doe div 146096) div 365"

definition civil_doy :: "int \<Rightarrow> int \<Rightarrow> int" where
  "civil_doy doe yoe = doe - (365 * yoe + yoe div 4 - yoe div 100)"

definition civil_mp :: "int \<Rightarrow> int" where
  "civil_mp doy = (5 * doy + 2) div 153"

definition civil_day :: "int \<Rightarrow> int \<Rightarrow> int" where
  "civil_day doy mp = doy - (153 * mp + 2) div 5 + 1"

definition civil_month :: "int \<Rightarrow> int" where
  "civil_month mp = (if mp < 10 then mp + 3 else mp - 9)"

definition civil_year :: "int \<Rightarrow> int \<Rightarrow> int" where
  "civil_year y0 m = y0 + (if m \<le> 2 then 1 else 0)"

definition year_string :: "int \<Rightarrow> string" where
  "year_string y =
     (if 0 \<le> y \<and> y \<le> 9999 then pad 4 y
      else (if y < 0 then CHR ''-'' else CHR ''+'') # pad 6 \<bar>y\<bar>)"

definition ymd3 :: "int \<Rightarrow> int \<Rightarrow> int \<Rightarrow> string" where
  "ymd3 y0 doy mp =
     year_string (civil_year y0 (civil_month mp)) @ ''-'' @ pad 2 (civil_month mp)
       @ ''-'' @ pad 2 (civil_day doy mp)"

definition ymd2 :: "int \<Rightarrow> int \<Rightarrow> int \<Rightarrow> string" where
  "ymd2 era doe yoe = ymd3 (yoe + era * 400) (civil_doy doe yoe) (civil_mp (civil_doy doe yoe))"

definition ymd1 :: "int \<Rightarrow> int \<Rightarrow> string" where
  "ymd1 z era = ymd2 era (z - era * 146097) (civil_yoe (z - era * 146097))"

definition date_string :: "int \<Rightarrow> string" where
  "date_string days = ymd1 (days + 719468) ((days + 719468) div 146097)"

definition time_string :: "int \<Rightarrow> string" where
  "time_string ms =
     pad 2 (ms div 3600000) @ '':'' @ pad 2 (ms div 60000 mod 60) @ '':''
       @ pad 2 (ms div 1000 mod 60) @ ''.'' @ pad 3 (ms mod 1000)"

definition toISOString :: "int \<Rightarrow> string" where
  "toISOString t = date_string (t div 86400000) @ ''T'' @ time_string (t mod 86400000) @ ''Z''"

subsection \<open>JSON.stringify\<close>

definition hex_digit :: "int \<Rightarrow> char" where
  "hex_digit d = (if d < 10 then char_of (48 + d) else char_of (87 + d))"

definition quote_char :: "char \<Rightarrow> string" where
  "quote_char c =
     (let n = (of_char c :: int) in
      if n = 34 then [CHR 0x5C, CHR 0x22]
      else if n = 92 then [CHR 0x5C, CHR 0x5C]
      else if n = 8 then [CHR 0x5C, CHR ''b'']
      else if n = 9 then [CHR 0x5C, CHR ''t'']
      else if n = 10 then [CHR 0x5C, CHR ''n'']
      else if n = 12 then [CHR 0x5C, CHR ''f'']
      else if n = 13 then [CHR 0x5C, CHR ''r'']
      else if n < 32 then [CHR 0x5C, CHR ''u'', CHR ''0'', CHR ''0'', hex_digit (n div 16), hex_digit (n mod 16)]
      else [c])"

definition quote :: "string \<Rightarrow> string" where
  "quote s = CHR 0x22 # concat (map quote_char s) @ [CHR 0x22]"

text \<open>
  \<^verbatim>\<open>JSON.stringify(value, replacer)\<close> with an array replacer: the array is the property
  list of every object of the value, at every depth; a property that is absent or
  undefined is skipped, an undefined array element is written \<^verbatim>\<open>null\<close>. The result
  \<open>None\<close> is JavaScript's \<^verbatim>\<open>undefined\<close>.
\<close>

fun JSON_stringify :: "string list \<Rightarrow> json \<Rightarrow> string option" where
  "JSON_stringify ks JUndefined = None"
| "JSON_stringify ks JNull = Some ''null''"
| "JSON_stringify ks (JString s) = Some (quote s)"
| "JSON_stringify ks (JNumber i) = Some (show_int i)"
| "JSON_stringify ks (JArray xs) =
     Some (''['' @ join '','' (map (\<lambda>x. case JSON_stringify ks x of None \<Rightarrow> ''null'' | Some s \<Rightarrow> s) xs) @ '']'')"
| "JSON_stringify ks (JObject kvs) =
     (let m = map (\<lambda>(k, v). (k, JSON_stringify ks v)) kvs
      in Some (''{'' @ join '',''
           (List.map_filter
              (\<lambda>k. case map_of m k of Some (Some s) \<Rightarrow> Some (quote k @ '':'' @ s) | _ \<Rightarrow> None) ks)
           @ ''}''))"

text \<open>
  fast-json-stable-stringify: the keys of every object in sorted order, an undefined
  property skipped, an undefined array element written \<^verbatim>\<open>null\<close>.
\<close>

fun stringify :: "json \<Rightarrow> string option" where
  "stringify JUndefined = None"
| "stringify JNull = Some ''null''"
| "stringify (JString s) = Some (quote s)"
| "stringify (JNumber i) = Some (show_int i)"
| "stringify (JArray xs) =
     Some (''['' @ join '','' (map (\<lambda>x. case stringify x of None \<Rightarrow> ''null'' | Some s \<Rightarrow> s) xs) @ '']'')"
| "stringify (JObject kvs) =
     (let m = map (\<lambda>(k, v). (k, stringify v)) kvs
      in Some (''{'' @ join '',''
           (List.map_filter
              (\<lambda>k. case map_of m k of Some (Some s) \<Rightarrow> Some (quote k @ '':'' @ s) | _ \<Rightarrow> None)
              (sort (map fst kvs)))
           @ ''}''))"

declare JSON_stringify.simps [simp del] stringify.simps [simp del]

definition or_empty :: "string option \<Rightarrow> string" where
  "or_empty x = (case x of None \<Rightarrow> [] | Some s \<Rightarrow> s)"

section \<open>hash-utils\<close>

text \<open>
  The repository holds two versions of the module. src/hash-utils.ts hashes fourteen
  keys, \<^verbatim>\<open>status\<close> and \<^verbatim>\<open>metadata\<close> among them, through \<^verbatim>\<open>JSON.stringify\<close> with an array
  replacer. The compiled dist/hash-utils.js, and the TypeScript it was compiled from, hash
  the twelve immutable keys through fast-json-stable-stringify. \<^verbatim>\<open>verifyReceiptHash\<close>,
  \<^verbatim>\<open>generateVerificationCode\<close> and \<^verbatim>\<open>verifyWithCode\<close> are the same in both.
\<close>

definition lineItem_json :: "ReceiptLineItem \<Rightarrow> json" where
  "lineItem_json li =
     JObject ([(''description'', JString (description li)),
               (''quantity'', JNumber (quantity li)),
               (''unitPrice'', JNumber (unitPrice li)),
               (''totalPrice'', JNumber (totalPrice li))]
              @ (case item_metadata li of None \<Rightarrow> [] | Some m \<Rightarrow> [(''metadata'', JObject m)]))"

definition opt_string :: "string option \<Rightarrow> json" where
  "opt_string x = (case x of None \<Rightarrow> JUndefined | Some s \<Rightarrow> JString s)"

definition opt_record :: "(string \<times> json) list option \<Rightarrow> json" where
  "opt_record x = (case x of None \<Rightarrow> JUndefined | Some m \<Rightarrow> JObject m)"

subsection \<open>src/hash-utils.ts\<close>

text \<open>
  The hash input of \<^verbatim>\<open>computeReceiptHash\<close> in src/hash-utils.ts, serialised by
  \<^verbatim>\<open>JSON.stringify(hashInput, Object.keys(hashInput).sort())\<close>. The digest function
  \<open>sha\<close> stands for \<^verbatim>\<open>createHash('sha256').update(s).digest('hex')\<close>.
\<close>

definition hashInput_src :: "Receipt \<Rightarrow> (string \<times> json) list" where
  "hashInput_src receipt =
     [(''receiptId'', JString (receiptId receipt)),
      (''tenantId'', JString (tenantId receipt)),
      (''transactionId'', JString (transactionId receipt)),
      (''status'', JString (status_str (status receipt))),
      (''issuedAt'', JString (toISOString (issuedAt receipt))),
      (''issuedBy'', JString (issuedBy receipt)),
      (''lineItems'', JArray (map lineItem_json (lineItems receipt))),
      (''subtotal'', JNumber (subtotal receipt)),
      (''tax'', JNumber (tax receipt)),
      (''total'', JNumber (total receipt)),
      (''currency'', JString (currency receipt)),
      (''paymentMethod'', JString (paymentMethod receipt)),
      (''auditEventId'', opt_string (auditEventId receipt)),
      (''metadata'', opt_record (metadata receipt))]"

definition canonical_src :: "Receipt \<Rightarrow> string" where
  "canonical_src receipt =
     (let hashInput = hashInput_src receipt
      in or_empty (JSON_stringify (sort (map fst hashInput)) (JObject hashInput)))"

definition computeReceiptHash_src :: "(string \<Rightarrow> string) \<Rightarrow> Receipt \<Rightarrow> string" where
  "computeReceiptHash_src sha receipt = sha (canonical_src receipt)"

subsection \<open>The hash-utils of the compiled module (dist/hash-utils.js and its TypeScript)\<close>

definition hashInput :: "Receipt \<Rightarrow> (string \<times> json) list" where
  "hashInput receipt =
     [(''receiptId'', JString (receiptId receipt)),
      (''tenantId'', JString (tenantId receipt)),
      (''transactionId'', JString (transactionId receipt)),
      (''issuedAt'', JString (toISOString (issuedAt receipt))),
      (''issuedBy'', JString (issuedBy receipt)),
      (''lineItems'', JArray (map lineItem_json (lineItems receipt))),
      (''subtotal'', JNumber (subtotal receipt)),
      (''tax'', JNumber (tax receipt)),
      (''total'', JNumber (total receipt)),
      (''currency'', JString (currency receipt)),
      (''paymentMethod'', JString (paymentMethod receipt)),
      (''auditEventId'', opt_string (auditEventId receipt))]"

definition canonical :: "Receipt \<Rightarrow> string" where
  "canonical receipt = or_empty (stringify (JObject (hashInput receipt)))"

definition computeReceiptHash :: "(string \<Rightarrow> string) \<Rightarrow> Receipt \<Rightarrow> string" where
  "computeReceiptHash sha receipt = sha (canonical receipt)"

subsection \<open>Shared by both files\<close>

text \<open>
  \<open>crh\<close> is the \<^verbatim>\<open>computeReceiptHash\<close> of the hash-utils module in use; neither
  version reads the \<^verbatim>\<open>hash\<close> field, which \<^verbatim>\<open>verifyReceiptHash\<close> removes first.
\<close>

definition verifyReceiptHash :: "(Receipt \<Rightarrow> string) \<Rightarrow> Receipt \<Rightarrow> bool" where
  "verifyReceiptHash crh receipt = (crh receipt = hash receipt)"

definition generateVerificationCode :: "string \<Rightarrow> string" where
  "generateVerificationCode h =
     (let code = toUpperCase (substring h 0 8)
      in substring code 0 4 @ ''-'' @ substring code 4 8)"

definition verifyWithCode :: "Receipt \<Rightarrow> string \<Rightarrow> bool" where
  "verifyWithCode receipt code = (generateVerificationCode (hash receipt) = toUpperCase code)"

section \<open>validation.ts\<close>

text \<open>
  Every failure of \<^verbatim>\<open>schema.parse\<close> is a thrown ZodError; the other errors are the
  \<^verbatim>\<open>Error\<close> objects of storage.ts and receipt-service.ts, one constructor per message.
\<close>

datatype error =
    ZodError
  | ReceiptAlreadyExists string
  | ReceiptAlreadyExistsForTransaction string
  | ReceiptNotFound string
  | CannotVoid ReceiptStatus
  | CannotRefund ReceiptStatus

record CreateReceiptInput =
  in_tenantId :: string
  in_transactionId :: string
  in_issuedBy :: string
  in_lineItems :: "ReceiptLineItem list"
  in_subtotal :: int
  in_tax :: int
  in_total :: int
  in_currency :: string
  in_paymentMethod :: string
  in_auditEventId :: "string option"
  in_metadata :: "(string \<times> json) list option"

record VoidReceiptInput =
  v_tenantId :: string
  v_receiptId :: string
  voidedBy :: string
  v_reason :: string
  v_auditEventId :: "string option"

record RefundReceiptInput =
  r_tenantId :: string
  r_receiptId :: string
  refundedBy :: string
  r_reason :: string
  r_auditEventId :: "string option"

definition TenantIdSchema :: "string \<Rightarrow> bool" where
  "TenantIdSchema s = (1 \<le> length s \<and> length s \<le> 255)"

definition UserIdSchema :: "string \<Rightarrow> bool" where
  "UserIdSchema s = (1 \<le> length s \<and> length s \<le> 255)"

definition TransactionIdSchema :: "string \<Rightarrow> bool" where
  "TransactionIdSchema s = (1 \<le> length s \<and> length s \<le> 255)"

definition CurrencySchema :: "string \<Rightarrow> string option" where
  "CurrencySchema s = (if length s = 3 then Some (toUpperCase s) else None)"

definition LineItemSchema :: "ReceiptLineItem \<Rightarrow> bool" where
  "LineItemSchema li =
     (1 \<le> length (description li) \<and> length (description li) \<le> 500 \<and>
      0 < quantity li \<and> 0 \<le> unitPrice li \<and> 0 \<le> totalPrice li)"

text \<open>The object schema of \<^verbatim>\<open>CreateReceiptInputSchema\<close>, before its refinement.\<close>

definition CreateReceiptInputObject :: "CreateReceiptInput \<Rightarrow> CreateReceiptInput option" where
  "CreateReceiptInputObject i =
     (if TenantIdSchema (in_tenantId i) \<and> TransactionIdSchema (in_transactionId i) \<and>
         UserIdSchema (in_issuedBy i) \<and>
         list_all LineItemSchema (in_lineItems i) \<and> 1 \<le> length (in_lineItems i) \<and>
         0 \<le> in_subtotal i \<and> 0 \<le> in_tax i \<and> 0 \<le> in_total i \<and>
         1 \<le> length (in_paymentMethod i) \<and> length (in_paymentMethod i) \<le> 100
      then (case CurrencySchema (in_currency i) of
              None \<Rightarrow> None
            | Some c \<Rightarrow> Some (i\<lparr>in_currency := c\<rparr>))
      else None)"

definition CreateReceiptInputSchema :: "CreateReceiptInput \<Rightarrow> error + CreateReceiptInput" where
  "CreateReceiptInputSchema i =
     (case CreateReceiptInputObject i of
        None \<Rightarrow> Inl ZodError
      | Some data \<Rightarrow>
          if in_subtotal data + in_tax data = in_total data then Inr data else Inl ZodError)"

definition VoidReceiptInputSchema :: "VoidReceiptInput \<Rightarrow> error + VoidReceiptInput" where
  "VoidReceiptInputSchema i =
     (if TenantIdSchema (v_tenantId i) \<and> 1 \<le> length (v_receiptId i) \<and> UserIdSchema (voidedBy i) \<and>
         1 \<le> length (v_reason i) \<and> length (v_reason i) \<le> 500
      then Inr i else Inl ZodError)"

definition RefundReceiptInputSchema :: "RefundReceiptInput \<Rightarrow> error + RefundReceiptInput" where
  "RefundReceiptInputSchema i =
     (if TenantIdSchema (r_tenantId i) \<and> 1 \<le> length (r_receiptId i) \<and> UserIdSchema (refundedBy i) \<and>
         1 \<le> length (r_reason i) \<and> length (r_reason i) \<le> 500
      then Inr i else Inl ZodError)"

section \<open>storage.ts: InMemoryReceiptStorage\<close>

text \<open>
  A JavaScript \<^verbatim>\<open>Map\<close> is an association list in insertion order: \<^verbatim>\<open>get\<close> and
  \<^verbatim>\<open>has\<close> are \<^const>\<open>map_of\<close>, \<^verbatim>\<open>set\<close> is \<^const>\<open>AList.update\<close> (in place for a key that
  is present, at the end otherwise).
\<close>

record InMemoryReceiptStorage =
  receipts :: "(string \<times> Receipt) list"
  transactionIndex :: "(string \<times> string) list"

definition new_storage :: InMemoryReceiptStorage where
  "new_storage = \<lparr>receipts = [], transactionIndex = []\<rparr>"

text \<open>\<^verbatim>\<open>Partial<Receipt>\<close>: \<open>None\<close> is a key that the update does not have.\<close>

record ReceiptUpdates =
  u_receiptId :: "string option"
  u_tenantId :: "string option"
  u_transactionId :: "string option"
  u_status :: "ReceiptStatus option"
  u_issuedAt :: "int option"
  u_issuedBy :: "string option"
  u_lineItems :: "ReceiptLineItem list option"
  u_subtotal :: "int option"
  u_tax :: "int option"
  u_total :: "int option"
  u_currency :: "string option"
  u_paymentMethod :: "string option"
  u_auditEventId :: "string option"
  u_hash :: "string option"
  u_verificationCode :: "string option"
  u_metadata :: "(string \<times> json) list option"

definition no_updates :: ReceiptUpdates where
  "no_updates = \<lparr>u_receiptId = None, u_tenantId = None, u_transactionId = None, u_status = None,
     u_issuedAt = None, u_issuedBy = None, u_lineItems = None, u_subtotal = None, u_tax = None,
     u_total = None, u_currency = None, u_paymentMethod = None, u_auditEventId = None,
     u_hash = None, u_verificationCode = None, u_metadata = None\<rparr>"

definition getKey :: "string \<Rightarrow> string \<Rightarrow> string" where
  "getKey tenant rid = tenant @ '':'' @ rid"

definition getTransactionKey :: "string \<Rightarrow> string \<Rightarrow> string" where
  "getTransactionKey tenant txid = tenant @ '':'' @ txid"

definition createReceipt ::
  "InMemoryReceiptStorage \<Rightarrow> Receipt \<Rightarrow> (error + Receipt) \<times> InMemoryReceiptStorage" where
  "createReceipt st receipt =
     (let key = getKey (tenantId receipt) (receiptId receipt);
          txKey = getTransactionKey (tenantId receipt) (transactionId receipt)
      in if map_of (receipts st) key \<noteq> None then (Inl (ReceiptAlreadyExists (receiptId receipt)), st)
         else if map_of (transactionIndex st) txKey \<noteq> None
           then (Inl (ReceiptAlreadyExistsForTransaction (transactionId receipt)), st)
         else (Inr receipt,
               st\<lparr>receipts := AList.update key receipt (receipts st),
                  transactionIndex := AList.update txKey (receiptId receipt) (transactionIndex st)\<rparr>))"

definition storage_getReceipt :: "InMemoryReceiptStorage \<Rightarrow> string \<Rightarrow> string \<Rightarrow> Receipt option" where
  "storage_getReceipt st tenant rid = map_of (receipts st) (getKey tenant rid)"

text \<open>\<^verbatim>\<open>if (!receiptId) return null\<close>: the empty string is falsy as well.\<close>

definition storage_getReceiptByTransaction ::
  "InMemoryReceiptStorage \<Rightarrow> string \<Rightarrow> string \<Rightarrow> Receipt option" where
  "storage_getReceiptByTransaction st tenant txid =
     (case map_of (transactionIndex st) (getTransactionKey tenant txid) of
        None \<Rightarrow> None
      | Some rid \<Rightarrow> if rid = [] then None else storage_getReceipt st tenant rid)"

definition or_else :: "'a option \<Rightarrow> 'a \<Rightarrow> 'a" where
  "or_else u x = (case u of None \<Rightarrow> x | Some y \<Rightarrow> y)"

text \<open>
  \<^verbatim>\<open>{ ...existing, ...updates, receiptId: existing.receiptId, ... }\<close>: the five fields
  written after the two spreads are taken from \<open>existing\<close>, every other field from
  \<open>updates\<close> where it has the key.
\<close>

definition merge_updates :: "Receipt \<Rightarrow> ReceiptUpdates \<Rightarrow> Receipt" where
  "merge_updates existing updates =
     \<lparr>receiptId = receiptId existing,
      tenantId = tenantId existing,
      transactionId = transactionId existing,
      status = or_else (u_status updates) (status existing),
      issuedAt = issuedAt existing,
      issuedBy = issuedBy existing,
      lineItems = or_else (u_lineItems updates) (lineItems existing),
      subtotal = or_else (u_subtotal updates) (subtotal existing),
      tax = or_else (u_tax updates) (tax existing),
      total = or_else (u_total updates) (total existing),
      currency = or_else (u_currency updates) (currency existing),
      paymentMethod = or_else (u_paymentMethod updates) (paymentMethod existing),
      auditEventId = (case u_auditEventId updates of None \<Rightarrow> auditEventId existing | Some a \<Rightarrow> Some a),
      hash = or_else (u_hash updates) (hash existing),
      verificationCode = or_else (u_verificationCode updates) (verificationCode existing),
      metadata = (case u_metadata updates of None \<Rightarrow> metadata existing | Some m \<Rightarrow> Some m)\<rparr>"

definition updateReceipt ::
  "InMemoryReceiptStorage \<Rightarrow> string \<Rightarrow> string \<Rightarrow> ReceiptUpdates
     \<Rightarrow> (error + Receipt) \<times> InMemoryReceiptStorage" where
  "updateReceipt st tenant rid updates =
     (let key = getKey tenant rid
      in case map_of (receipts st) key of
           None \<Rightarrow> (Inl (ReceiptNotFound rid), st)
         | Some existing \<Rightarrow>
             (let updated = merge_updates existing updates
              in (Inr updated, st\<lparr>receipts := AList.update key updated (receipts st)\<rparr>)))"

text \<open>\<^verbatim>\<open>Array.prototype.slice(start, end)\<close>: a negative index counts from the end.\<close>

definition slice :: "'a list \<Rightarrow> int \<Rightarrow> int \<Rightarrow> 'a list" where
  "slice xs start fin =
     (let len = int (length xs);
          k = (if start < 0 then max (len + start) 0 else min start len);
          e = (if fin < 0 then max (len + fin) 0 else min fin len)
      in take (nat (e - k)) (drop (nat k) xs))"

definition storage_listReceipts ::
  "InMemoryReceiptStorage \<Rightarrow> string \<Rightarrow> int option \<Rightarrow> int option \<Rightarrow> Receipt list" where
  "storage_listReceipts st tenant limit offset =
     (let lim = or_else limit 100; off = or_else offset 0;
          tenantReceipts =
            sort_key (\<lambda>receipt. - issuedAt receipt)
              (filter (\<lambda>receipt. tenantId receipt = tenant) (map snd (receipts st)))
      in slice tenantReceipts off (off + lim))"

section \<open>receipt-service.ts: ReceiptService\<close>

text \<open>
  The service over the in-memory storage. \<open>crh\<close> is the imported
  \<^verbatim>\<open>computeReceiptHash\<close>; the identifier drawn by \<^verbatim>\<open>generateId\<close> and the clock
  reading of \<^verbatim>\<open>new Date()\<close> are arguments. A thrown error is \<open>Inl\<close>; an operation
  that writes returns the storage as well.
\<close>

record ReceiptVerificationResult =
  valid :: bool
  vr_receipt :: "Receipt option"
  vr_reason :: "string option"

record PublicReceiptData =
  p_receiptId :: string
  p_verificationCode :: string
  p_issuedAt :: int
  p_total :: int
  p_currency :: string
  p_status :: ReceiptStatus
  p_hash :: string

definition generateReceipt ::
  "(Receipt \<Rightarrow> string) \<Rightarrow> InMemoryReceiptStorage \<Rightarrow> string \<Rightarrow> int \<Rightarrow> CreateReceiptInput
     \<Rightarrow> (error + Receipt) \<times> InMemoryReceiptStorage" where
  "generateReceipt crh st rid now input =
     (case CreateReceiptInputSchema input of
        Inl e \<Rightarrow> (Inl e, st)
      | Inr validated \<Rightarrow>
          (let receiptWithoutHash =
                 \<lparr>receiptId = rid,
                  tenantId = in_tenantId validated,
                  transactionId = in_transactionId validated,
                  status = ISSUED,
                  issuedAt = now,
                  issuedBy = in_issuedBy validated,
                  lineItems = in_lineItems validated,
                  subtotal = in_subtotal validated,
                  tax = in_tax validated,
                  total = in_total validated,
                  currency = in_currency validated,
                  paymentMethod = in_paymentMethod validated,
                  auditEventId = in_auditEventId validated,
                  hash = [],
                  verificationCode = [],
                  metadata = in_metadata validated\<rparr>;
               h = crh receiptWithoutHash;
               code = generateVerificationCode h;
               receipt = receiptWithoutHash\<lparr>hash := h, verificationCode := code\<rparr>
           in createReceipt st receipt))"

definition getReceipt :: "InMemoryReceiptStorage \<Rightarrow> string \<Rightarrow> string \<Rightarrow> error + Receipt option" where
  "getReceipt st tenant rid =
     (if \<not> TenantIdSchema tenant then Inl ZodError else Inr (storage_getReceipt st tenant rid))"

definition getReceiptByTransaction ::
  "InMemoryReceiptStorage \<Rightarrow> string \<Rightarrow> string \<Rightarrow> error + Receipt option" where
  "getReceiptByTransaction st tenant txid =
     (if \<not> TenantIdSchema tenant then Inl ZodError
      else Inr (storage_getReceiptByTransaction st tenant txid))"

definition verifyReceipt ::
  "(Receipt \<Rightarrow> string) \<Rightarrow> InMemoryReceiptStorage \<Rightarrow> string \<Rightarrow> string
     \<Rightarrow> error + ReceiptVerificationResult" where
  "verifyReceipt crh st tenant rid =
     (if \<not> TenantIdSchema tenant then Inl ZodError
      else case storage_getReceipt st tenant rid of
             None \<Rightarrow> Inr \<lparr>valid = False, vr_receipt = None, vr_reason = Some ''Receipt not found''\<rparr>
           | Some receipt \<Rightarrow>
               if \<not> verifyReceiptHash crh receipt
               then Inr \<lparr>valid = False, vr_receipt = Some receipt,
                         vr_reason = Some ''Receipt hash does not match content (tampered)''\<rparr>
               else Inr \<lparr>valid = True, vr_receipt = Some receipt, vr_reason = None\<rparr>)"

definition verifyReceiptByCode ::
  "InMemoryReceiptStorage \<Rightarrow> string \<Rightarrow> string \<Rightarrow> string \<Rightarrow> error + ReceiptVerificationResult" where
  "verifyReceiptByCode st tenant rid code =
     (if \<not> TenantIdSchema tenant then Inl ZodError
      else case storage_getReceipt st tenant rid of
             None \<Rightarrow> Inr \<lparr>valid = False, vr_receipt = None, vr_reason = Some ''Receipt not found''\<rparr>
           | Some receipt \<Rightarrow>
               if \<not> verifyWithCode receipt code
               then Inr \<lparr>valid = False, vr_receipt = Some receipt,
                         vr_reason = Some ''Verification code does not match''\<rparr>
               else Inr \<lparr>valid = True, vr_receipt = Some receipt, vr_reason = None\<rparr>)"

definition getPublicReceiptData ::
  "InMemoryReceiptStorage \<Rightarrow> string \<Rightarrow> string \<Rightarrow> error + PublicReceiptData option" where
  "getPublicReceiptData st tenant rid =
     (if \<not> TenantIdSchema tenant then Inl ZodError
      else case storage_getReceipt st tenant rid of
             None \<Rightarrow> Inr None
           | Some receipt \<Rightarrow>
               Inr (Some \<lparr>p_receiptId = receiptId receipt,
                          p_verificationCode = verificationCode receipt,
                          p_issuedAt = issuedAt receipt,
                          p_total = total receipt,
                          p_currency = currency receipt,
                          p_status = status receipt,
                          p_hash = hash receipt\<rparr>))"

text \<open>
  \<^verbatim>\<open>{ ...receipt.metadata, voidedBy: ..., voidedAt: ..., voidReason: ..., voidAuditEventId: ... }\<close>:
  the four keys are written in this order over the entries of the stored metadata.
\<close>

definition spread4 ::
  "(string \<times> json) list option \<Rightarrow> string \<times> json \<Rightarrow> string \<times> json \<Rightarrow> string \<times> json \<Rightarrow> string \<times> json
     \<Rightarrow> (string \<times> json) list" where
  "spread4 base a b c d =
     AList.update (fst d) (snd d) (AList.update (fst c) (snd c)
       (AList.update (fst b) (snd b) (AList.update (fst a) (snd a)
          (case base of None \<Rightarrow> [] | Some m \<Rightarrow> m))))"

definition voidReceipt ::
  "InMemoryReceiptStorage \<Rightarrow> int \<Rightarrow> VoidReceiptInput \<Rightarrow> (error + Receipt) \<times> InMemoryReceiptStorage" where
  "voidReceipt st now input =
     (case VoidReceiptInputSchema input of
        Inl e \<Rightarrow> (Inl e, st)
      | Inr validated \<Rightarrow>
          (case storage_getReceipt st (v_tenantId validated) (v_receiptId validated) of
             None \<Rightarrow> (Inl (ReceiptNotFound (v_receiptId validated)), st)
           | Some receipt \<Rightarrow>
               if status receipt \<noteq> ISSUED then (Inl (CannotVoid (status receipt)), st)
               else updateReceipt st (v_tenantId validated) (v_receiptId validated)
                      (no_updates\<lparr>u_status := Some VOIDED,
                         u_metadata := Some (spread4 (metadata receipt)
                           (''voidedBy'', JString (voidedBy validated))
                           (''voidedAt'', JString (toISOString now))
                           (''voidReason'', JString (v_reason validated))
                           (''voidAuditEventId'', opt_string (v_auditEventId validated)))\<rparr>)))"

definition refundReceipt ::
  "InMemoryReceiptStorage \<Rightarrow> int \<Rightarrow> RefundReceiptInput \<Rightarrow> (error + Receipt) \<times> InMemoryReceiptStorage" where
  "refundReceipt st now input =
     (case RefundReceiptInputSchema input of
        Inl e \<Rightarrow> (Inl e, st)
      | Inr validated \<Rightarrow>
          (case storage_getReceipt st (r_tenantId validated) (r_receiptId validated) of
             None \<Rightarrow> (Inl (ReceiptNotFound (r_receiptId validated)), st)
           | Some receipt \<Rightarrow>
               if status receipt \<noteq> ISSUED then (Inl (CannotRefund (status receipt)), st)
               else updateReceipt st (r_tenantId validated) (r_receiptId validated)
                      (no_updates\<lparr>u_status := Some REFUNDED,
                         u_metadata := Some (spread4 (metadata receipt)
                           (''refundedBy'', JString (refundedBy validated))
                           (''refundedAt'', JString (toISOString now))
                           (''refundReason'', JString (r_reason validated))
                           (''refundAuditEventId'', opt_string (r_auditEventId validated)))\<rparr>)))"

definition listReceipts ::
  "InMemoryReceiptStorage \<Rightarrow> string \<Rightarrow> int option \<Rightarrow> int option \<Rightarrow> error + Receipt list" where
  "listReceipts st tenant limit offset =
     (if \<not> TenantIdSchema tenant then Inl ZodError
      else Inr (storage_listReceipts st tenant limit offset))"

section \<open>Verification codes\<close>





section \<open>Sample data of the test suite\<close>

definition sample_input :: CreateReceiptInput where
  "sample_input =
     \<lparr>in_tenantId = ''tenant-1'', in_transactionId = ''txn-void-hash'', in_issuedBy = ''user-1'',
      in_lineItems = [\<lparr>description = ''A'', quantity = 1, unitPrice = 100, totalPrice = 100,
                        item_metadata = None\<rparr>],
      in_subtotal = 100, in_tax = 0, in_total = 100, in_currency = ''NGN'',
      in_paymentMethod = ''cash'', in_auditEventId = None, in_metadata = None\<rparr>"

definition sample_receipt :: Receipt where
  "sample_receipt =
     \<lparr>receiptId = ''receipt-1'', tenantId = ''tenant-1'', transactionId = ''txn-1'',
      status = ISSUED, issuedAt = 1704067200000, issuedBy = ''user-1'',
      lineItems = [\<lparr>description = ''A'', quantity = 1, unitPrice = 100, totalPrice = 100,
                     item_metadata = None\<rparr>],
      subtotal = 100, tax = 0, total = 100, currency = ''NGN'', paymentMethod = ''cash'',
      auditEventId = None, hash = ''abc123'', verificationCode = ''ABCD-1234'', metadata = None\<rparr>"

definition sample_void :: "string \<Rightarrow> string \<Rightarrow> VoidReceiptInput" where
  "sample_void tenant rid =
     \<lparr>v_tenantId = tenant, v_receiptId = rid, voidedBy = ''user-2'', v_reason = ''Test void'',
      v_auditEventId = None\<rparr>"

definition sample_refund :: "string \<Rightarrow> string \<Rightarrow> RefundReceiptInput" where
  "sample_refund tenant rid =
     \<lparr>r_tenantId = tenant, r_receiptId = rid, refundedBy = ''user-2'', r_reason = ''Defective product'',
      r_auditEventId = None\<rparr>"

text \<open>
  The receipt that \<^verbatim>\<open>generateReceipt\<close> builds from \<open>sample_input\<close> before it is hashed,
  with the identifier \<open>sample_id\<close> and the clock at 2024-01-01T00:00:00.000Z, and the
  metadata that \<^verbatim>\<open>voidReceipt\<close> writes for \<open>sample_void\<close> one minute later.
\<close>

definition sample_id :: string where
  "sample_id = ''0123456789abcdef0123456789abcdef''"

definition issued_sample :: Receipt where
  "issued_sample =
     \<lparr>receiptId = sample_id, tenantId = ''tenant-1'', transactionId = ''txn-void-hash'',
      status = ISSUED, issuedAt = 1704067200000, issuedBy = ''user-1'',
      lineItems = [\<lparr>description = ''A'', quantity = 1, unitPrice = 100, totalPrice = 100,
                     item_metadata = None\<rparr>],
      subtotal = 100, tax = 0, total = 100, currency = ''NGN'', paymentMethod = ''cash'',
      auditEventId = None, hash = [], verificationCode = [], metadata = None\<rparr>"

definition void_metadata :: "(string \<times> json) list" where
  "void_metadata =
     [(''voidedBy'', JString ''user-2''),
      (''voidedAt'', JString ''2024-01-01T00:01:00.000Z''),
      (''voidReason'', JString ''Test void''),
      (''voidAuditEventId'', JUndefined)]"

definition tampered_items :: "ReceiptLineItem list" where
  "tampered_items =
     [\<lparr>description = ''A'', quantity = 1, unitPrice = 100, totalPrice = 999, item_metadata = None\<rparr>]"

text \<open>A stand-in digest function for concrete runs: every input hashes to the same 64 digits.\<close>

definition constant_digest :: "string \<Rightarrow> string" where
  "constant_digest s = replicate 64 CHR ''a''"

section \<open>Reachable states\<close>

text \<open>
  The storages that the operations of \<^verbatim>\<open>InMemoryReceiptStorage\<close> build from the empty
  one, and their invariant: every entry sits under the key of its own tenant and receipt
  identifiers, and its transaction key is in the transaction index.
\<close>

definition store_inv :: "InMemoryReceiptStorage \<Rightarrow> bool" where
  "store_inv st =
     list_all (\<lambda>(k, x). k = getKey (tenantId x) (receiptId x) \<and>
        map_of (transactionIndex st) (getTransactionKey (tenantId x) (transactionId x)) \<noteq> None)
       (receipts st)"

inductive reachable :: "InMemoryReceiptStorage \<Rightarrow> bool" where
  init: "reachable new_storage"
| create: "reachable st \<Longrightarrow> reachable (snd (createReceipt st receipt))"
| update: "reachable st \<Longrightarrow> reachable (snd (updateReceipt st tenant rid updates))"


section \<open>Scenarios\<close>

text \<open>
  The property list that \<^verbatim>\<open>Object.keys(hashInput).sort()\<close> gives in src/hash-utils.ts, and
  a line item that has nothing but its metadata.
\<close>

definition src_keys :: "string list" where
  "src_keys = [''auditEventId'', ''currency'', ''issuedAt'', ''issuedBy'', ''lineItems'', ''metadata'',
     ''paymentMethod'', ''receiptId'', ''status'', ''subtotal'', ''tax'', ''tenantId'', ''total'',
     ''transactionId'']"

definition bare_item :: "(string \<times> json) list option \<Rightarrow> ReceiptLineItem" where
  "bare_item md =
     \<lparr>description = [], quantity = 0, unitPrice = 0, totalPrice = 0, item_metadata = md\<rparr>"

text \<open>
  The last step of \<^verbatim>\<open>generateReceipt\<close>: the receipt with its digest and its code.
\<close>

definition with_hash :: "(Receipt \<Rightarrow> string) \<Rightarrow> Receipt \<Rightarrow> Receipt" where
  "with_hash crh r = r\<lparr>hash := crh r, verificationCode := generateVerificationCode (crh r)\<rparr>"

text \<open>A receipt is issued from \<open>sample_input\<close> into the empty storage, then voided.\<close>

definition issue_sample ::
  "(Receipt \<Rightarrow> string) \<Rightarrow> (error + Receipt) \<times> InMemoryReceiptStorage" where
  "issue_sample crh = generateReceipt crh new_storage sample_id 1704067200000 sample_input"

definition void_issued ::
  "(Receipt \<Rightarrow> string) \<Rightarrow> (error + Receipt) \<times> InMemoryReceiptStorage" where
  "void_issued crh =
     voidReceipt (snd (issue_sample crh)) 1704067260000 (sample_void ''tenant-1'' sample_id)"

text \<open>Storages that hold \<open>sample_receipt\<close>, as the storage tests build them.\<close>

definition other_tenant_receipt :: Receipt where
  "other_tenant_receipt = sample_receipt\<lparr>tenantId := ''tenant-2'', transactionId := ''txn-2''\<rparr>"

definition stored_sample :: InMemoryReceiptStorage where
  "stored_sample = snd (createReceipt new_storage sample_receipt)"


text \<open>The same input under a tenant identifier that contains the key separator.\<close>

definition colon_input :: CreateReceiptInput where
  "colon_input = sample_input\<lparr>in_tenantId := ''acme:eu''\<rparr>"

definition colon_receipt :: Receipt where
  "colon_receipt = issued_sample\<lparr>tenantId := ''acme:eu''\<rparr>"

section \<open>Upper-casing and the code format\<close>












section \<open>Storage and service lemmas\<close>



lemma set_update_subset: "set (AList.update k v al) \<subseteq> insert (k, v) (set al)"
  by (induction al) auto

lemma store_inv_new: "store_inv new_storage"
  by (simp add: store_inv_def new_storage_def)

lemma store_inv_create: 
  assumes "store_inv st"
  shows "store_inv (snd (createReceipt st r))"
proof -
  have *: "(map_of (AList.update k v al) k' \<noteq> None)" if "k' = k \<or> map_of al k' \<noteq> None" for k v k' and al :: "(string \<times> string) list"
    using that by (auto simp: update_conv')
  show ?thesis
    using assms set_update_subset [of "getKey (tenantId r) (receiptId r)" r "receipts st"]
    unfolding store_inv_def createReceipt_def Let_def list_all_iff
    by (auto simp: update_conv')
qed

lemma merge_updates_ids:
  "receiptId (merge_updates e u) = receiptId e"
  "tenantId (merge_updates e u) = tenantId e"
  "transactionId (merge_updates e u) = transactionId e"
  "issuedAt (merge_updates e u) = issuedAt e"
  "issuedBy (merge_updates e u) = issuedBy e"
  by (simp_all add: merge_updates_def)

lemma store_inv_update:
  assumes "store_inv st"
  shows "store_inv (snd (updateReceipt st tenant rid u))"
proof (cases "map_of (receipts st) (getKey tenant rid)")
  case None
  then show ?thesis using assms by (simp add: updateReceipt_def)
next
  case (Some e)
  then have mem: "(getKey tenant rid, e) \<in> set (receipts st)" by (rule map_of_SomeD)
  with assms have e: "getKey tenant rid = getKey (tenantId e) (receiptId e)"
    "map_of (transactionIndex st) (getTransactionKey (tenantId e) (transactionId e)) \<noteq> None"
    unfolding store_inv_def list_all_iff by auto
  show ?thesis
    using assms Some e set_update_subset [of "getKey tenant rid" "merge_updates e u" "receipts st"]
    unfolding store_inv_def updateReceipt_def Let_def list_all_iff
    by (auto simp: merge_updates_ids)
qed

lemma reachable_inv: "reachable st \<Longrightarrow> store_inv st"
  by (induction rule: reachable.induct) (simp_all add: store_inv_new store_inv_create store_inv_update)

















section \<open>The hash input of src/hash-utils.ts\<close>

lemma keys_src: "sort (map fst (hashInput_src r)) = src_keys"
  unfolding hashInput_src_def src_keys_def by code_simp

lemma item_src:
  "JSON_stringify src_keys (lineItem_json li)
   = JSON_stringify src_keys (lineItem_json (bare_item (item_metadata li)))"
  by (cases "item_metadata li")
     (simp_all add: lineItem_json_def JSON_stringify.simps(6) src_keys_def List.map_filter_simps
        Let_def bare_item_def)

lemma items_src:
  assumes "map item_metadata items' = map item_metadata items"
  shows "JSON_stringify src_keys (JArray (map lineItem_json items'))
       = JSON_stringify src_keys (JArray (map lineItem_json items))"
proof -
  let ?f = "\<lambda>x. case JSON_stringify src_keys x of None \<Rightarrow> ''null'' | Some s \<Rightarrow> s"
  let ?h = "\<lambda>md. ?f (lineItem_json (bare_item md))"
  have "?f (lineItem_json li) = ?h (item_metadata li)" for li
    by (subst item_src) (rule refl)
  then have *: "map ?f (map lineItem_json xs) = map ?h (map item_metadata xs)" for xs
    by (induction xs) simp_all
  have "map ?f (map lineItem_json items') = map ?h (map item_metadata items')"
    by (rule *)
  also have "\<dots> = map ?h (map item_metadata items)"
    by (simp only: assms)
  also have "\<dots> = map ?f (map lineItem_json items)"
    by (rule * [symmetric])
  finally show ?thesis by (simp only: JSON_stringify.simps(5))
qed

lemma canonical_src_items:
  assumes "map item_metadata items' = map item_metadata (lineItems r)"
  shows "canonical_src (r\<lparr>lineItems := items'\<rparr>) = canonical_src r"
proof -
  have "map (\<lambda>(k, v). (k, JSON_stringify src_keys v)) (hashInput_src (r\<lparr>lineItems := items'\<rparr>))
      = map (\<lambda>(k, v). (k, JSON_stringify src_keys v)) (hashInput_src r)"
    by (simp add: hashInput_src_def items_src [OF assms])
  then show ?thesis
    by (simp only: canonical_src_def Let_def keys_src JSON_stringify.simps)
qed

text \<open>On the sample receipt the line items are written as an array of one empty object.\<close>

lemma src_line_items_rendered:
  "JSON_stringify src_keys (JArray (map lineItem_json (lineItems issued_sample))) = Some ''[{}]''"
  "JSON_stringify src_keys (JArray (map lineItem_json tampered_items)) = Some ''[{}]''"
  by code_simp+

lemma canonical_src_cong:
  assumes "receiptId r = receiptId r'" "tenantId r = tenantId r'" "transactionId r = transactionId r'"
    "status r = status r'" "issuedAt r = issuedAt r'" "issuedBy r = issuedBy r'"
    "lineItems r = lineItems r'" "subtotal r = subtotal r'" "tax r = tax r'" "total r = total r'"
    "currency r = currency r'" "paymentMethod r = paymentMethod r'" "auditEventId r = auditEventId r'"
    "metadata r = metadata r'"
  shows "canonical_src r = canonical_src r'"
  using assms by (simp add: canonical_src_def hashInput_src_def)

lemma canonical_src_voided:
  "canonical_src (issued_sample\<lparr>status := VOIDED, metadata := Some void_metadata\<rparr>)
     \<noteq> canonical_src issued_sample"
  by code_simp

lemma with_hash_src_canonical:
  "canonical_src (with_hash crh r) = canonical_src r"
  "canonical_src ((with_hash crh r)\<lparr>status := s, metadata := m\<rparr>)
     = canonical_src (r\<lparr>status := s, metadata := m\<rparr>)"
  by (rule canonical_src_cong; simp add: with_hash_def)+

section \<open>The hash input of the compiled hash-utils\<close>

text \<open>
  The compiled module hashes the twelve immutable fields only: a void or a refund leaves a
  valid receipt valid, and a changed line item changes the canonical string.
\<close>

lemma canonical_cong:
  assumes "receiptId r = receiptId r'" "tenantId r = tenantId r'" "transactionId r = transactionId r'"
    "issuedAt r = issuedAt r'" "issuedBy r = issuedBy r'"
    "lineItems r = lineItems r'" "subtotal r = subtotal r'" "tax r = tax r'" "total r = total r'"
    "currency r = currency r'" "paymentMethod r = paymentMethod r'" "auditEventId r = auditEventId r'"
  shows "canonical r = canonical r'"
  using assms by (simp add: canonical_def hashInput_def)

lemma with_hash_verifies: "verifyReceiptHash (computeReceiptHash sha) (with_hash (computeReceiptHash sha) r)"
proof -
  have "canonical (with_hash (computeReceiptHash sha) r) = canonical r"
    by (rule canonical_cong) (simp_all add: with_hash_def)
  then show ?thesis by (simp add: verifyReceiptHash_def computeReceiptHash_def with_hash_def)
qed

lemma hashInput_lifecycle:
  "canonical (merge_updates r (no_updates\<lparr>u_status := Some s, u_metadata := Some m\<rparr>)) = canonical r"
  by (rule canonical_cong) (simp_all add: merge_updates_def no_updates_def or_else_def)

lemma compiled_void_keeps_valid:
  assumes "VoidReceiptInputSchema vin = Inr vin"
    and "storage_getReceipt st (v_tenantId vin) (v_receiptId vin) = Some r"
    and "status r = ISSUED"
    and "verifyReceiptHash (computeReceiptHash sha) r"
  shows "\<exists>r'. voidReceipt st now vin = (Inr r', snd (voidReceipt st now vin))
           \<and> status r' = VOIDED \<and> hash r' = hash r \<and> verificationCode r' = verificationCode r
           \<and> verifyReceipt (computeReceiptHash sha) (snd (voidReceipt st now vin))
                (v_tenantId vin) (v_receiptId vin)
              = Inr \<lparr>valid = True, vr_receipt = Some r', vr_reason = None\<rparr>"
proof -
  from assms(1) have t: "TenantIdSchema (v_tenantId vin)"
    by (simp add: VoidReceiptInputSchema_def split: if_splits)
  let ?u = "no_updates\<lparr>u_status := Some VOIDED,
                         u_metadata := Some (spread4 (metadata r)
                           (''voidedBy'', JString (voidedBy vin))
                           (''voidedAt'', JString (toISOString now))
                           (''voidReason'', JString (v_reason vin))
                           (''voidAuditEventId'', opt_string (v_auditEventId vin)))\<rparr>"
  have h: "hash (merge_updates r ?u) = hash r" "verificationCode (merge_updates r ?u) = verificationCode r"
    "status (merge_updates r ?u) = VOIDED"
    by (simp_all add: merge_updates_def no_updates_def or_else_def)
  have v: "verifyReceiptHash (computeReceiptHash sha) (merge_updates r ?u)"
    using assms(4) by (simp add: verifyReceiptHash_def computeReceiptHash_def hashInput_lifecycle h)
  show ?thesis
    using assms(1,2,3) t h v
    by (simp add: voidReceipt_def updateReceipt_def storage_getReceipt_def Let_def
        verifyReceipt_def update_conv')
qed

lemma compiled_refund_keeps_valid:
  assumes "RefundReceiptInputSchema rin = Inr rin"
    and "storage_getReceipt st (r_tenantId rin) (r_receiptId rin) = Some r"
    and "status r = ISSUED"
    and "verifyReceiptHash (computeReceiptHash sha) r"
  shows "\<exists>r'. refundReceipt st now rin = (Inr r', snd (refundReceipt st now rin))
           \<and> status r' = REFUNDED \<and> hash r' = hash r \<and> verificationCode r' = verificationCode r
           \<and> verifyReceipt (computeReceiptHash sha) (snd (refundReceipt st now rin))
                (r_tenantId rin) (r_receiptId rin)
              = Inr \<lparr>valid = True, vr_receipt = Some r', vr_reason = None\<rparr>"
proof -
  from assms(1) have t: "TenantIdSchema (r_tenantId rin)"
    by (simp add: RefundReceiptInputSchema_def split: if_splits)
  let ?u = "no_updates\<lparr>u_status := Some REFUNDED,
                         u_metadata := Some (spread4 (metadata r)
                           (''refundedBy'', JString (refundedBy rin))
                           (''refundedAt'', JString (toISOString now))
                           (''refundReason'', JString (r_reason rin))
                           (''refundAuditEventId'', opt_string (r_auditEventId rin)))\<rparr>"
  have h: "hash (merge_updates r ?u) = hash r" "verificationCode (merge_updates r ?u) = verificationCode r"
    "status (merge_updates r ?u) = REFUNDED"
    by (simp_all add: merge_updates_def no_updates_def or_else_def)
  have v: "verifyReceiptHash (computeReceiptHash sha) (merge_updates r ?u)"
    using assms(4) by (simp add: verifyReceiptHash_def computeReceiptHash_def hashInput_lifecycle h)
  show ?thesis
    using assms(1,2,3) t h v
    by (simp add: refundReceipt_def updateReceipt_def storage_getReceipt_def Let_def
        verifyReceipt_def update_conv')
qed


lemma compiled_detects: "canonical (issued_sample\<lparr>lineItems := tampered_items\<rparr>) \<noteq> canonical issued_sample"
  by code_simp


section \<open>Runs on the sample data\<close>

lemma upper_NGN: "toUpperCase ''NGN'' = ''NGN''"
  by code_simp

lemma sample_input_valid: "CreateReceiptInputSchema sample_input = Inr sample_input"
  by (simp add: CreateReceiptInputSchema_def CreateReceiptInputObject_def sample_input_def
      TenantIdSchema_def TransactionIdSchema_def UserIdSchema_def LineItemSchema_def
      CurrencySchema_def upper_NGN)

lemma generate_sample:
  "generateReceipt crh new_storage sample_id 1704067200000 sample_input
   = (Inr (with_hash crh issued_sample),
      \<lparr>receipts = [(''tenant-1:0123456789abcdef0123456789abcdef'', with_hash crh issued_sample)],
       transactionIndex = [(''tenant-1:txn-void-hash'', sample_id)]\<rparr>)"
  unfolding generateReceipt_def sample_input_valid
  by (simp add: sample_input_def createReceipt_def new_storage_def Let_def issued_sample_def
      with_hash_def getKey_def getTransactionKey_def sample_id_def)

lemma iso_void: "toISOString 1704067260000 = ''2024-01-01T00:01:00.000Z''"
  by code_simp

lemma void_sample:
  "voidReceipt (snd (generateReceipt crh new_storage sample_id 1704067200000 sample_input))
      1704067260000 (sample_void ''tenant-1'' sample_id)
   = (Inr ((with_hash crh issued_sample)\<lparr>status := VOIDED, metadata := Some void_metadata\<rparr>),
      \<lparr>receipts = [(''tenant-1:0123456789abcdef0123456789abcdef'',
            (with_hash crh issued_sample)\<lparr>status := VOIDED, metadata := Some void_metadata\<rparr>)],
       transactionIndex = [(''tenant-1:txn-void-hash'', sample_id)]\<rparr>)"
  unfolding generate_sample
  by (simp add: voidReceipt_def VoidReceiptInputSchema_def sample_void_def TenantIdSchema_def
      UserIdSchema_def storage_getReceipt_def getKey_def sample_id_def with_hash_def
      issued_sample_def updateReceipt_def Let_def merge_updates_def no_updates_def or_else_def
      spread4_def iso_void void_metadata_def opt_string_def)

lemma colon_input_valid: "CreateReceiptInputSchema colon_input = Inr colon_input"
  by (simp add: CreateReceiptInputSchema_def CreateReceiptInputObject_def sample_input_def
      TenantIdSchema_def TransactionIdSchema_def UserIdSchema_def LineItemSchema_def
      CurrencySchema_def upper_NGN colon_input_def)

lemma generate_colon:
  "generateReceipt crh new_storage sample_id 1704067200000 colon_input
   = (Inr (with_hash crh colon_receipt),
      \<lparr>receipts = [(''acme:eu:0123456789abcdef0123456789abcdef'', with_hash crh colon_receipt)],
       transactionIndex = [(''acme:eu:txn-void-hash'', sample_id)]\<rparr>)"
  unfolding generateReceipt_def colon_input_valid
  by (simp add: sample_input_def createReceipt_def new_storage_def Let_def issued_sample_def
      with_hash_def getKey_def getTransactionKey_def sample_id_def colon_input_def colon_receipt_def)

section \<open>The claims\<close>



text \<open>
  C9. The result of \<^verbatim>\<open>verifyWithCode\<close> depends on the stored \<^verbatim>\<open>hash\<close> field and on the
  supplied code only: two receipts with the same \<^verbatim>\<open>hash\<close> field get the same answer for
  every code, whatever their other fields hold. The digest is not recomputed.
\<close>

theorem verifyWithCode_depends_on_hash_only:
  "hash r1 = hash r2 \<Longrightarrow> verifyWithCode r1 code = verifyWithCode r2 code"
  by (simp add: verifyWithCode_def)

theorem verifyWithCode_depends_on_hash_only_witness:
  "hash sample_receipt = hash (sample_receipt\<lparr>total := 9999, issuedBy := ''mallory''\<rparr>)
   \<and> total sample_receipt \<noteq> total (sample_receipt\<lparr>total := 9999, issuedBy := ''mallory''\<rparr>)
   \<and> verifyWithCode sample_receipt ''abc1-23''
       = verifyWithCode (sample_receipt\<lparr>total := 9999, issuedBy := ''mallory''\<rparr>) ''abc1-23''"
  using verifyWithCode_depends_on_hash_only
    [of sample_receipt "sample_receipt\<lparr>total := 9999, issuedBy := ''mallory''\<rparr>" "''abc1-23''"]
  by (simp add: sample_receipt_def)

text \<open>
  C10. Every operation of the service that takes a tenant identifier validates it first:
  with an empty identifier, or one longer than 255 characters, each of the nine operations
  throws the validation error, whatever the storage holds, and the operations that write
  leave the storage as it was.
\<close>

theorem tenantId_validated_first:
  assumes "tenant = [] \<or> 255 < length tenant"
  shows "getReceipt st tenant rid = Inl ZodError
    \<and> getReceiptByTransaction st tenant txid = Inl ZodError
    \<and> verifyReceipt crh st tenant rid = Inl ZodError
    \<and> verifyReceiptByCode st tenant rid code = Inl ZodError
    \<and> getPublicReceiptData st tenant rid = Inl ZodError
    \<and> listReceipts st tenant limit offset = Inl ZodError
    \<and> generateReceipt crh st rid now (input\<lparr>in_tenantId := tenant\<rparr>) = (Inl ZodError, st)
    \<and> voidReceipt st now (vin\<lparr>v_tenantId := tenant\<rparr>) = (Inl ZodError, st)
    \<and> refundReceipt st now (rin\<lparr>r_tenantId := tenant\<rparr>) = (Inl ZodError, st)"
proof -
  from assms have bad: "\<not> TenantIdSchema tenant"
    by (auto simp: TenantIdSchema_def)
  have "CreateReceiptInputSchema (input\<lparr>in_tenantId := tenant\<rparr>) = Inl ZodError"
    using bad by (simp add: CreateReceiptInputSchema_def CreateReceiptInputObject_def)
  moreover have "VoidReceiptInputSchema (vin\<lparr>v_tenantId := tenant\<rparr>) = Inl ZodError"
    using bad by (simp add: VoidReceiptInputSchema_def)
  moreover have "RefundReceiptInputSchema (rin\<lparr>r_tenantId := tenant\<rparr>) = Inl ZodError"
    using bad by (simp add: RefundReceiptInputSchema_def)
  ultimately show ?thesis using bad
    by (simp add: getReceipt_def getReceiptByTransaction_def verifyReceipt_def
        verifyReceiptByCode_def getPublicReceiptData_def listReceipts_def generateReceipt_def
        voidReceipt_def refundReceipt_def)
qed

theorem tenantId_validated_first_witness:
  "(([] :: string) = [] \<or> 255 < length ([] :: string))
    \<and> getReceipt new_storage [] ''receipt-1'' = Inl ZodError
    \<and> getReceiptByTransaction new_storage [] ''txn-1'' = Inl ZodError
    \<and> verifyReceipt (computeReceiptHash constant_digest) new_storage [] ''receipt-1'' = Inl ZodError
    \<and> verifyReceiptByCode new_storage [] ''receipt-1'' ''ABCD-1234'' = Inl ZodError
    \<and> getPublicReceiptData new_storage [] ''receipt-1'' = Inl ZodError
    \<and> listReceipts new_storage [] None None = Inl ZodError
    \<and> generateReceipt (computeReceiptHash constant_digest) new_storage ''receipt-1'' 0
         (sample_input\<lparr>in_tenantId := []\<rparr>) = (Inl ZodError, new_storage)
    \<and> voidReceipt new_storage 0 ((sample_void ''tenant-1'' ''receipt-1'')\<lparr>v_tenantId := []\<rparr>)
         = (Inl ZodError, new_storage)
    \<and> refundReceipt new_storage 0 ((sample_refund ''tenant-1'' ''receipt-1'')\<lparr>r_tenantId := []\<rparr>)
         = (Inl ZodError, new_storage)"
  using tenantId_validated_first [of "[]" new_storage "''receipt-1''" "''txn-1''"
      "computeReceiptHash constant_digest" "''ABCD-1234''" None None 0 sample_input
      "sample_void ''tenant-1'' ''receipt-1''" "sample_refund ''tenant-1'' ''receipt-1''"]
  by simp

text \<open>
  C3, as the code has it. In every storage built by the storage's own operations,
  \<^verbatim>\<open>createReceipt\<close> rejects with a conflict error, writing to neither index, a receipt
  whose \<^verbatim>\<open>receiptId\<close> is already stored under the same \<^verbatim>\<open>tenantId\<close>, or whose
  \<^verbatim>\<open>(tenantId, transactionId)\<close> pair is already stored. The uniqueness of \<^verbatim>\<open>receiptId\<close>
  is per tenant: the keys of the receipt index are \<^verbatim>\<open>tenantId:receiptId\<close>.
\<close>

theorem createReceipt_rejects_tenant_duplicates:
  assumes "reachable st"
    and "(k, r') \<in> set (receipts st)"
    and "tenantId r' = tenantId r"
    and "receiptId r' = receiptId r \<or> transactionId r' = transactionId r"
  shows "createReceipt st r = (Inl (ReceiptAlreadyExists (receiptId r)), st)
       \<or> createReceipt st r = (Inl (ReceiptAlreadyExistsForTransaction (transactionId r)), st)"
proof -
  from assms(1) have "store_inv st" by (rule reachable_inv)
  with assms(2) have k: "k = getKey (tenantId r') (receiptId r')"
    and tx: "map_of (transactionIndex st) (getTransactionKey (tenantId r') (transactionId r')) \<noteq> None"
    unfolding store_inv_def list_all_iff by auto
  from assms(2) have "map_of (receipts st) k \<noteq> None"
    by (metis map_of_eq_None_iff fst_conv image_eqI)
  with k tx assms(3,4) show ?thesis
    by (auto simp: createReceipt_def Let_def)
qed

theorem createReceipt_rejects_tenant_duplicates_witness:
  "reachable (snd (createReceipt new_storage sample_receipt))
   \<and> (''tenant-1:receipt-1'', sample_receipt) \<in> set (receipts (snd (createReceipt new_storage sample_receipt)))
   \<and> createReceipt (snd (createReceipt new_storage sample_receipt)) (sample_receipt\<lparr>transactionId := ''txn-9''\<rparr>) = (Inl (ReceiptAlreadyExists ''receipt-1''), snd (createReceipt new_storage sample_receipt))
   \<and> createReceipt (snd (createReceipt new_storage sample_receipt)) (sample_receipt\<lparr>receiptId := ''receipt-9''\<rparr>) = (Inl (ReceiptAlreadyExistsForTransaction ''txn-1''), snd (createReceipt new_storage sample_receipt))"
proof -
  let ?st = "snd (createReceipt new_storage sample_receipt)"
  have r: "reachable ?st" by (intro reachable.intros)
  have m: "(''tenant-1:receipt-1'', sample_receipt) \<in> set (receipts ?st)"
    by (simp add: createReceipt_def new_storage_def sample_receipt_def getKey_def getTransactionKey_def Let_def)
  have a: "createReceipt ?st (sample_receipt\<lparr>transactionId := ''txn-9''\<rparr>) \<noteq> (Inl (ReceiptAlreadyExistsForTransaction (transactionId (sample_receipt\<lparr>transactionId := ''txn-9''\<rparr>))), ?st)"
    by (simp add: createReceipt_def new_storage_def sample_receipt_def getKey_def getTransactionKey_def Let_def)
  have b: "createReceipt ?st (sample_receipt\<lparr>receiptId := ''receipt-9''\<rparr>) \<noteq> (Inl (ReceiptAlreadyExists (receiptId (sample_receipt\<lparr>receiptId := ''receipt-9''\<rparr>))), ?st)"
    by (simp add: createReceipt_def new_storage_def sample_receipt_def getKey_def getTransactionKey_def Let_def)
  from createReceipt_rejects_tenant_duplicates [OF r m, of "sample_receipt\<lparr>transactionId := ''txn-9''\<rparr>"] a
  have 1: "createReceipt ?st (sample_receipt\<lparr>transactionId := ''txn-9''\<rparr>) = (Inl (ReceiptAlreadyExists ''receipt-1''), ?st)"
    by (simp add: sample_receipt_def)
  from createReceipt_rejects_tenant_duplicates [OF r m, of "sample_receipt\<lparr>receiptId := ''receipt-9''\<rparr>"] b
  have 2: "createReceipt ?st (sample_receipt\<lparr>receiptId := ''receipt-9''\<rparr>) = (Inl (ReceiptAlreadyExistsForTransaction ''txn-1''), ?st)"
    by (simp add: sample_receipt_def)
  from r m 1 2 show ?thesis by blast
qed

text \<open>
  C3 as stated fails: with \<^verbatim>\<open>receipt-1\<close> stored under \<^verbatim>\<open>tenant-1\<close>, a receipt with the
  same \<^verbatim>\<open>receiptId\<close> under \<^verbatim>\<open>tenant-2\<close> is created and stored.
\<close>

theorem createReceipt_receiptId_not_global:
  "storage_getReceipt (snd (createReceipt new_storage sample_receipt)) ''tenant-1'' ''receipt-1'' = Some sample_receipt
   \<and> receiptId other_tenant_receipt = receiptId sample_receipt
   \<and> fst (createReceipt (snd (createReceipt new_storage sample_receipt)) other_tenant_receipt) = Inr other_tenant_receipt
   \<and> storage_getReceipt (snd (createReceipt (snd (createReceipt new_storage sample_receipt)) other_tenant_receipt)) ''tenant-2'' ''receipt-1'' = Some other_tenant_receipt"
  by (simp add: createReceipt_def storage_getReceipt_def new_storage_def sample_receipt_def other_tenant_receipt_def getKey_def getTransactionKey_def Let_def)



text \<open>
  C6 does not hold of \<^verbatim>\<open>updateReceipt\<close>: it writes back \<^verbatim>\<open>receiptId\<close>, \<^verbatim>\<open>tenantId\<close>,
  \<^verbatim>\<open>transactionId\<close>, \<^verbatim>\<open>issuedAt\<close> and \<^verbatim>\<open>issuedBy\<close> after merging the update, and no
  other field. An update that carries \<^verbatim>\<open>total\<close> and \<^verbatim>\<open>hash\<close> replaces both in the stored
  receipt.
\<close>

theorem updateReceipt_overwrites_total_and_hash:
  "storage_getReceipt stored_sample ''tenant-1'' ''receipt-1'' = Some sample_receipt
   \<and> updateReceipt stored_sample ''tenant-1'' ''receipt-1''
        (no_updates\<lparr>u_total := Some 9999, u_hash := Some ''forged''\<rparr>)
      = (Inr (sample_receipt\<lparr>total := 9999, hash := ''forged''\<rparr>),
         stored_sample\<lparr>receipts := [(''tenant-1:receipt-1'', sample_receipt\<lparr>total := 9999, hash := ''forged''\<rparr>)]\<rparr>)
   \<and> total sample_receipt = 100 \<and> hash sample_receipt = ''abc123''"
  by (simp add: stored_sample_def createReceipt_def updateReceipt_def storage_getReceipt_def
      new_storage_def sample_receipt_def getKey_def getTransactionKey_def Let_def
      merge_updates_def no_updates_def or_else_def)



text \<open>
  C1 does not hold of src/hash-utils.ts, whose hash input has \<^verbatim>\<open>status\<close> and \<^verbatim>\<open>metadata\<close>
  among its keys. A receipt is issued and verifies; it is voided, and keeps its \<^verbatim>\<open>hash\<close>
  and \<^verbatim>\<open>verificationCode\<close>; the canonical string of the voided receipt is another one, so
  \<^verbatim>\<open>verifyReceipt\<close> answers valid only if the digest function maps the two strings to the
  same digest. (The compiled module leaves the two keys out: see
  \<open>compiled_void_keeps_valid\<close> and \<open>compiled_refund_keeps_valid\<close>.)
\<close>

theorem src_hash_utils_void_invalidates:
  "fst (issue_sample (computeReceiptHash_src sha))
     = Inr (with_hash (computeReceiptHash_src sha) issued_sample)
   \<and> verifyReceipt (computeReceiptHash_src sha) (snd (issue_sample (computeReceiptHash_src sha)))
        ''tenant-1'' sample_id
     = Inr \<lparr>valid = True, vr_receipt = Some (with_hash (computeReceiptHash_src sha) issued_sample),
            vr_reason = None\<rparr>
   \<and> fst (void_issued (computeReceiptHash_src sha))
     = Inr ((with_hash (computeReceiptHash_src sha) issued_sample)
              \<lparr>status := VOIDED, metadata := Some void_metadata\<rparr>)
   \<and> canonical_src (issued_sample\<lparr>status := VOIDED, metadata := Some void_metadata\<rparr>)
       \<noteq> canonical_src issued_sample
   \<and> verifyReceipt (computeReceiptHash_src sha) (snd (void_issued (computeReceiptHash_src sha)))
        ''tenant-1'' sample_id
     = Inr (if sha (canonical_src (issued_sample\<lparr>status := VOIDED, metadata := Some void_metadata\<rparr>))
                = sha (canonical_src issued_sample)
            then \<lparr>valid = True,
                   vr_receipt = Some ((with_hash (computeReceiptHash_src sha) issued_sample)
                     \<lparr>status := VOIDED, metadata := Some void_metadata\<rparr>),
                   vr_reason = None\<rparr>
            else \<lparr>valid = False,
                   vr_receipt = Some ((with_hash (computeReceiptHash_src sha) issued_sample)
                     \<lparr>status := VOIDED, metadata := Some void_metadata\<rparr>),
                   vr_reason = Some ''Receipt hash does not match content (tampered)''\<rparr>)"
proof -
  let ?crh = "computeReceiptHash_src sha"
  let ?R0 = "with_hash ?crh issued_sample"
  let ?R1 = "?R0\<lparr>status := VOIDED, metadata := Some void_metadata\<rparr>"
  have h0: "hash ?R0 = sha (canonical_src issued_sample)" "hash ?R1 = sha (canonical_src issued_sample)"
    by (simp_all add: with_hash_def computeReceiptHash_src_def)
  have t: "TenantIdSchema ''tenant-1''" by (simp add: TenantIdSchema_def)
  have 1: "fst (issue_sample ?crh) = Inr ?R0"
    by (simp add: issue_sample_def generate_sample)
  have 2: "verifyReceipt ?crh (snd (issue_sample ?crh)) ''tenant-1'' sample_id
     = Inr \<lparr>valid = True, vr_receipt = Some ?R0, vr_reason = None\<rparr>"
    unfolding issue_sample_def generate_sample
    by (simp add: verifyReceipt_def t storage_getReceipt_def getKey_def sample_id_def
        verifyReceiptHash_def h0)
       (simp add: computeReceiptHash_src_def with_hash_src_canonical)
  have 3: "fst (void_issued ?crh) = Inr ?R1"
    by (simp add: void_issued_def issue_sample_def void_sample)
  have 5: "verifyReceipt ?crh (snd (void_issued ?crh)) ''tenant-1'' sample_id
     = Inr (if sha (canonical_src (issued_sample\<lparr>status := VOIDED, metadata := Some void_metadata\<rparr>))
                = sha (canonical_src issued_sample)
            then \<lparr>valid = True, vr_receipt = Some ?R1, vr_reason = None\<rparr>
            else \<lparr>valid = False, vr_receipt = Some ?R1,
                   vr_reason = Some ''Receipt hash does not match content (tampered)''\<rparr>)"
    unfolding void_issued_def issue_sample_def void_sample
    by (simp add: verifyReceipt_def t storage_getReceipt_def getKey_def sample_id_def
        verifyReceiptHash_def h0)
       (simp add: computeReceiptHash_src_def with_hash_src_canonical)
  from 1 2 3 canonical_src_voided 5 show ?thesis by (intro conjI)
qed


text \<open>
  C2 does not hold of src/hash-utils.ts: the array given to \<^verbatim>\<open>JSON.stringify\<close> as replacer
  is the property list of the nested objects too, and no key of a line item but
  \<^verbatim>\<open>metadata\<close> is in it. Changing \<^verbatim>\<open>description\<close>, \<^verbatim>\<open>quantity\<close>, \<^verbatim>\<open>unitPrice\<close> or
  \<^verbatim>\<open>totalPrice\<close> of line items leaves the result of \<^verbatim>\<open>verifyReceiptHash\<close> as it was.
  (With the compiled module the canonical string changes: see \<open>compiled_detects\<close>.)
\<close>

theorem src_hash_ignores_line_item_fields:
  "map item_metadata items' = map item_metadata (lineItems r) \<Longrightarrow>
   verifyReceiptHash (computeReceiptHash_src sha) (r\<lparr>lineItems := items'\<rparr>)
     = verifyReceiptHash (computeReceiptHash_src sha) r"
  by (simp add: verifyReceiptHash_def computeReceiptHash_src_def canonical_src_items)

theorem src_hash_ignores_line_item_fields_witness:
  "map item_metadata tampered_items = map item_metadata (lineItems (issued_sample\<lparr>hash := canonical_src issued_sample\<rparr>))
   \<and> totalPrice (hd tampered_items) \<noteq> totalPrice (hd (lineItems issued_sample))
   \<and> verifyReceiptHash (computeReceiptHash_src (\<lambda>s. s)) (issued_sample\<lparr>hash := canonical_src issued_sample\<rparr>)
   \<and> verifyReceiptHash (computeReceiptHash_src (\<lambda>s. s))
        (issued_sample\<lparr>hash := canonical_src issued_sample, lineItems := tampered_items\<rparr>)"
proof -
  let ?r = "issued_sample\<lparr>hash := canonical_src issued_sample\<rparr>"
  have 1: "map item_metadata tampered_items = map item_metadata (lineItems ?r)"
    by (simp add: tampered_items_def issued_sample_def)
  have 2: "totalPrice (hd tampered_items) \<noteq> totalPrice (hd (lineItems issued_sample))"
    by (simp add: tampered_items_def issued_sample_def)
  have "canonical_src ?r = canonical_src issued_sample"
    by (rule canonical_src_cong) simp_all
  then have 3: "verifyReceiptHash (computeReceiptHash_src (\<lambda>s. s)) ?r"
    by (simp add: verifyReceiptHash_def computeReceiptHash_src_def)
  from src_hash_ignores_line_item_fields [OF 1, of "\<lambda>s. s"] 3
  have 4: "verifyReceiptHash (computeReceiptHash_src (\<lambda>s. s)) (?r\<lparr>lineItems := tampered_items\<rparr>)"
    by simp
  from 1 2 3 4 show ?thesis by simp
qed

text \<open>
  C4 does not hold when a tenant identifier contains a colon: the key of tenant
  \<^verbatim>\<open>acme:eu\<close> and receipt \<^verbatim>\<open>id\<close> is the key of tenant \<^verbatim>\<open>acme\<close> and receipt \<^verbatim>\<open>eu:id\<close>.
  Tenant \<^verbatim>\<open>acme\<close> reads the receipt of tenant \<^verbatim>\<open>acme:eu\<close>, and \<^verbatim>\<open>verifyReceipt\<close> under
  tenant \<^verbatim>\<open>acme\<close> answers valid for it.
\<close>

theorem colon_tenant_reads_other_tenant:
  "fst (generateReceipt (computeReceiptHash sha) new_storage sample_id 1704067200000 colon_input)
     = Inr (with_hash (computeReceiptHash sha) colon_receipt)
   \<and> tenantId (with_hash (computeReceiptHash sha) colon_receipt) = ''acme:eu''
   \<and> getReceipt (snd (generateReceipt (computeReceiptHash sha) new_storage sample_id 1704067200000 colon_input))
        ''acme'' (''eu:'' @ sample_id)
     = Inr (Some (with_hash (computeReceiptHash sha) colon_receipt))
   \<and> verifyReceipt (computeReceiptHash sha)
        (snd (generateReceipt (computeReceiptHash sha) new_storage sample_id 1704067200000 colon_input))
        ''acme'' (''eu:'' @ sample_id)
     = Inr \<lparr>valid = True, vr_receipt = Some (with_hash (computeReceiptHash sha) colon_receipt),
            vr_reason = None\<rparr>"
  unfolding generate_colon
  by (simp add: getReceipt_def verifyReceipt_def TenantIdSchema_def storage_getReceipt_def
      getKey_def sample_id_def with_hash_verifies)
     (simp add: with_hash_def colon_receipt_def)


end
